theory Spec2Isabelle
  imports Complex_Main "HOL-Library.Word"
begin

section \<open>JavaScript strings and regular expressions\<close>

text \<open>
  A JavaScript string is a sequence of UTF-16 code units; \<open>length\<close> counts code units and
  a regular expression without the \<open>u\<close> flag matches code unit by code unit. Strings that
  come from input are lists of 16-bit words. The string literals of the source (messages,
  labels, paths) are ASCII and are written as HOL strings.
\<close>

type_synonym cu = "16 word"
type_synonym jsstring = "cu list"

text \<open>The code units of an ASCII literal.\<close>

definition js :: "string \<Rightarrow> jsstring" where
  "js s = map (\<lambda>c. of_nat (of_char c)) s"

text \<open>
  ECMAScript WhiteSpace and LineTerminator: the code units that \<open>\s\<close> matches and that
  \<open>String.prototype.trim\<close> strips.
\<close>

definition is_line_terminator :: "cu \<Rightarrow> bool" where
  "is_line_terminator c = (c = 0x0A \<or> c = 0x0D \<or> c = 0x2028 \<or> c = 0x2029)"

definition is_space :: "cu \<Rightarrow> bool" where
  "is_space c =
     (c = 0x09 \<or> c = 0x0B \<or> c = 0x0C \<or> c = 0x20 \<or> c = 0xA0 \<or> c = 0x1680 \<or>
      (0x2000 \<le> c \<and> c \<le> 0x200A) \<or> c = 0x202F \<or> c = 0x205F \<or> c = 0x3000 \<or>
      c = 0xFEFF \<or> is_line_terminator c)"

definition is_lower :: "cu \<Rightarrow> bool" where
  "is_lower c = (0x61 \<le> c \<and> c \<le> 0x7A)"

definition is_upper :: "cu \<Rightarrow> bool" where
  "is_upper c = (0x41 \<le> c \<and> c \<le> 0x5A)"

definition is_digit :: "cu \<Rightarrow> bool" where
  "is_digit c = (0x30 \<le> c \<and> c \<le> 0x39)"

text \<open>\<open>value.trim()\<close>\<close>

definition trim :: "jsstring \<Rightarrow> jsstring" where
  "trim s = rev (dropWhile is_space (rev (dropWhile is_space s)))"

text \<open>
  The regular expressions of the source use character classes, concatenation, \<open>*\<close>,
  \<open>+\<close> and the positive lookahead \<open>(?=...)\<close>. The matcher is a backtracking one:
  \<open>rests r s\<close> lists what can remain of \<open>s\<close> after \<open>r\<close> has matched a prefix of it.
  An iteration of \<open>*\<close> that consumes nothing is not repeated, so at most \<open>length s\<close>
  iterations are ever needed.
\<close>

datatype rx =
    Cls "cu \<Rightarrow> bool"
  | Seq rx rx
  | Star rx
  | Look rx

fun star_rests :: "(jsstring \<Rightarrow> jsstring list) \<Rightarrow> nat \<Rightarrow> jsstring \<Rightarrow> jsstring list" where
  "star_rests f 0 s = [s]"
| "star_rests f (Suc n) s =
     s # concat (map (star_rests f n) (filter (\<lambda>t. length t < length s) (f s)))"

fun rests :: "rx \<Rightarrow> jsstring \<Rightarrow> jsstring list" where
  "rests (Cls p) s = (case s of [] \<Rightarrow> [] | c # t \<Rightarrow> if p c then [t] else [])"
| "rests (Seq a b) s = concat (map (rests b) (rests a s))"
| "rests (Star a) s = star_rests (rests a) (length s) s"
| "rests (Look a) s = (if rests a s = [] then [] else [s])"

definition Plus :: "rx \<Rightarrow> rx" where
  "Plus r = Seq r (Star r)"

text \<open>\<open>.\<close> matches every code unit but a line terminator.\<close>

definition Dot :: rx where
  "Dot = Cls (\<lambda>c. \<not> is_line_terminator c)"

text \<open>
  \<open>/^r$/.test(s)\<close>: the match starts at index 0 and ends at the end of \<open>s\<close>.
  \<open>/r/.test(s)\<close>: the match may start at any index and end anywhere.
\<close>

definition test_anchored :: "rx \<Rightarrow> jsstring \<Rightarrow> bool" where
  "test_anchored r s = ([] \<in> set (rests r s))"

fun tails :: "'a list \<Rightarrow> 'a list list" where
  "tails [] = [[]]"
| "tails (x # xs) = (x # xs) # tails xs"

definition test :: "rx \<Rightarrow> jsstring \<Rightarrow> bool" where
  "test r s = list_ex (\<lambda>t. rests r t \<noteq> []) (tails s)"

section \<open>JSON values\<close>

text \<open>
  A parsed JSON value. Of a number the code only ever asks whether it is zero; object keys
  keep their order, and when a key is repeated the last one counts, as in \<open>JSON.parse\<close>.
  A value that may be \<open>undefined\<close> is a \<open>json option\<close>.
\<close>

datatype json =
    JNull
  | JBool bool
  | JNum real
  | JStr jsstring
  | JArr "json list"
  | JObj "(jsstring \<times> json) list"

type_synonym jsval = "json option"

text \<open>A thrown value: an \<open>Error\<close> with its message, or something that is not an \<open>Error\<close>.\<close>

datatype thrown = Error jsstring | NotAnError

fun truthy :: "jsval \<Rightarrow> bool" where
  "truthy None = False"
| "truthy (Some JNull) = False"
| "truthy (Some (JBool b)) = b"
| "truthy (Some (JNum n)) = (n \<noteq> 0)"
| "truthy (Some (JStr s)) = (s \<noteq> [])"
| "truthy (Some (JArr _)) = True"
| "truthy (Some (JObj _)) = True"

text \<open>
  \<open>v.key\<close> (and the destructuring \<open>const { key } = v\<close>) for a key that no prototype
  defines: a \<open>TypeError\<close> on \<open>null\<close>, the member of an object, \<open>undefined\<close> otherwise.
  The message of the \<open>TypeError\<close> is the engine's, here V8's for a property read,
  \<open>Cannot read properties of null (reading 'key')\<close>; for a destructuring V8 words it
  otherwise, and the one handler that destructures, \<open>POST\<close>, does not read the message.
\<close>

definition null_TypeError :: "string \<Rightarrow> thrown" where
  "null_TypeError key =
     Error (js (''Cannot read properties of null (reading '' @ [CHR 0x27] @ key @
                [CHR 0x27] @ '')''))"

fun member :: "json \<Rightarrow> string \<Rightarrow> thrown + jsval" where
  "member JNull key = Inl (null_TypeError key)"
| "member (JObj kvs) key = Inr (map_of (rev kvs) (js key))"
| "member _ key = Inr None"

text \<open>A string literal as a JSON value.\<close>

definition lit :: "string \<Rightarrow> json" where
  "lit s = JStr (js s)"

section \<open>The cached database connection (src/lib/db.ts)\<close>

text \<open>
  \<open>mongoose.connection\<close> is the one connection handle. A promise is given by how it
  settles, which is what \<open>await\<close> observes.
\<close>

datatype connection = Connection

datatype 'a promise = Resolves 'a | Rejects thrown

text \<open>
  \<open>global.mongoose\<close>, set to \<open>{ conn: null, promise: null }\<close> when the module is first
  loaded, and the promises that the calls of \<open>mongoose.connect\<close> have returned.
\<close>

record cache =
  conn :: "connection option"
  promise :: "connection promise option"

record globals =
  cached :: cache
  connects :: "connection promise list"

definition fresh :: globals where
  "fresh = \<lparr> cached = \<lparr> conn = None, promise = None \<rparr>, connects = [] \<rparr>"

text \<open>
  \<open>connectDb\<close>. \<open>connecting\<close> is the promise that
  \<open>mongoose.connect(MONGODB_URI).then(() => mongoose.connection)\<close> would return; the
  statement that builds it does not assign it. \<open>await\<close> of \<open>null\<close> is \<open>null\<close>.
  The result is the thrown error or the returned \<open>cached.conn\<close>.
\<close>

definition connectDb ::
  "connection promise \<Rightarrow> globals \<Rightarrow> (thrown + connection option) \<times> globals" where
  "connectDb connecting g =
     (case conn (cached g) of
        Some c \<Rightarrow> (Inr (Some c), g)
      | None \<Rightarrow>
          (let g = (if promise (cached g) = None
                    then g \<lparr> connects := connects g @ [connecting] \<rparr> else g)
           in case promise (cached g) of
                None \<Rightarrow> (Inr None, g \<lparr> cached := (cached g) \<lparr> conn := None \<rparr> \<rparr>)
              | Some (Resolves c) \<Rightarrow>
                  (Inr (Some c), g \<lparr> cached := (cached g) \<lparr> conn := Some c \<rparr> \<rparr>)
              | Some (Rejects error) \<Rightarrow>
                  (Inl error, g \<lparr> cached := (cached g) \<lparr> promise := None \<rparr> \<rparr>)))"

text \<open>
  A run of calls of \<open>connectDb\<close>, each with the promise that its \<open>mongoose.connect\<close>
  would return: the results of the calls, in order, and the state they leave.
\<close>

fun connectDb_calls ::
  "connection promise list \<Rightarrow> globals \<Rightarrow> (thrown + connection option) list \<times> globals" where
  "connectDb_calls [] g = ([], g)"
| "connectDb_calls (p # ps) g =
     (case connectDb p g of
        (r, g') \<Rightarrow> (case connectDb_calls ps g' of (rs, g'') \<Rightarrow> (r # rs, g'')))"

section \<open>The register route (src/app/api/auth/register/route.ts)\<close>

record response =
  status :: nat
  body :: json

text \<open>\<open>NextResponse.json(obj, { status })\<close> for an object of the given members.\<close>

definition json_response :: "(string \<times> json) list \<Rightarrow> nat \<Rightarrow> response" where
  "json_response members st = \<lparr> status = st, body = JObj (map (\<lambda>(k, v). (js k, v)) members) \<rparr>"

text \<open>
  The route calls the \<open>User\<close> model of the ORM, which it takes here as a parameter over a
  collection of type \<open>'db\<close>: \<open>findOne\<close> throws or returns a document or \<open>null\<close>,
  \<open>create\<close> throws or returns the collection with the new document.
\<close>

record ('db, 'doc) User_model =
  findOne :: "'db \<Rightarrow> jsval \<Rightarrow> thrown + 'doc option"
  create :: "'db \<Rightarrow> jsval \<Rightarrow> jsval \<Rightarrow> thrown + 'db"

record 'db server =
  db :: globals
  users :: 'db

text \<open>
  \<open>POST\<close>. \<open>request_json\<close> is what \<open>await request.json()\<close> gives. Every exception
  inside the \<open>try\<close> ends in the \<open>catch\<close>, which answers \<open>failed\<close>.
\<close>

definition POST ::
  "('db, 'doc) User_model \<Rightarrow> connection promise \<Rightarrow> thrown + json \<Rightarrow> 'db server
     \<Rightarrow> response \<times> 'db server" where
  "POST User connecting request_json s =
     (let failed = json_response [(''error'', lit ''Failed to register user'')] 400 in
      case request_json of
        Inl error \<Rightarrow> (failed, s)
      | Inr parsed \<Rightarrow>
          (case (member parsed ''email'', member parsed ''password'') of
             (Inr email, Inr password) \<Rightarrow>
               if \<not> truthy email \<or> \<not> truthy password then
                 (json_response [(''error'', lit ''Email and passowrd are required'')] 400, s)
               else
                 (case connectDb connecting (db s) of
                    (Inl error, g) \<Rightarrow> (failed, s \<lparr> db := g \<rparr>)
                  | (Inr c, g) \<Rightarrow>
                      (case findOne User (users s) email of
                         Inl error \<Rightarrow> (failed, s \<lparr> db := g \<rparr>)
                       | Inr (Some isExist) \<Rightarrow>
                           (json_response [(''error'', lit ''User already registered'')] 400,
                            s \<lparr> db := g \<rparr>)
                       | Inr None \<Rightarrow>
                           (case create User (users s) email password of
                              Inl error \<Rightarrow> (failed, s \<lparr> db := g \<rparr>)
                            | Inr stored \<Rightarrow>
                                (json_response
                                   [(''message'', lit ''User  registered successfully'')] 201,
                                 s \<lparr> db := g, users := stored \<rparr>))))
           | _ \<Rightarrow> (failed, s)))"

text \<open>
  Modelled from the spec: the \<open>User\<close> model (\<open>@/app/models/User\<close>) and its schema are not
  among the sources. The spec has the route persist a new user record into a collection
  after a single existence check, so the collection is the list of its records,
  \<open>findOne({ email })\<close> returns the first record with that email, and
  \<open>create({ email, password })\<close> adds one record carrying the two values. Either call
  may throw instead, as a database failure does.
\<close>

record user_record =
  record_email :: jsval
  record_password :: jsval

record faults =
  findOne_throws :: "thrown option"
  create_throws :: "thrown option"

definition User_of :: "faults \<Rightarrow> (user_record list, user_record) User_model" where
  "User_of f =
     \<lparr> findOne = (\<lambda>records e.
         case findOne_throws f of
           Some error \<Rightarrow> Inl error
         | None \<Rightarrow> Inr (find (\<lambda>r. record_email r = e) records)),
       create = (\<lambda>records e p.
         case create_throws f of
           Some error \<Rightarrow> Inl error
         | None \<Rightarrow> Inr (records @ [\<lparr> record_email = e, record_password = p \<rparr>])) \<rparr>"

definition no_faults :: faults where
  "no_faults = \<lparr> findOne_throws = None, create_throws = None \<rparr>"

section \<open>The upload-auth route (src/unnamed/part_001)\<close>

text \<open>The two environment variables; \<open>None\<close> when a variable is not set.\<close>

record env =
  IMAGEKIT_PRIVATE_KEY :: "jsstring option"
  NEXT_PUBLIC_PUBLIC_KEY :: "jsstring option"

text \<open>
  \<open>GET\<close>. \<open>getUploadAuthParams\<close> is the function of the ImageKit library, taken as a
  parameter: from the private and the public key it throws or returns the parameters.
  \<open>Response.json(obj)\<close> has status 200 and leaves out a member that is \<open>undefined\<close>.
\<close>

definition GET ::
  "(jsstring option \<Rightarrow> jsstring option \<Rightarrow> thrown + json) \<Rightarrow> env \<Rightarrow> response" where
  "GET getUploadAuthParams e =
     (case getUploadAuthParams (IMAGEKIT_PRIVATE_KEY e) (NEXT_PUBLIC_PUBLIC_KEY e) of
        Inl error \<Rightarrow>
          json_response [(''error'', lit ''Authentication for Image kit failed'')] 500
      | Inr authentiationParameters \<Rightarrow>
          json_response
            ((''authentiationParameters'', authentiationParameters) #
             (case NEXT_PUBLIC_PUBLIC_KEY e of
                None \<Rightarrow> []
              | Some publicKey \<Rightarrow> [(''publicKey'', JStr publicKey)]))
            200)"




section \<open>The register page (src/app/register/page.tsx)\<close>

record PasswordStrength =
  score :: nat
  label :: string
  color :: string

definition strengthMap :: "(string \<times> string) list" where
  "strengthMap =
     [ (''Very Weak'', ''bg-red-500''),
       (''Weak'', ''bg-orange-500''),
       (''Fair'', ''bg-yellow-500''),
       (''Good'', ''bg-blue-500''),
       (''Strong'', ''bg-green-500''),
       (''Very Strong'', ''bg-emerald-500'') ]"

text \<open>\<open>arr[i]\<close>: \<open>undefined\<close> out of range.\<close>

definition index :: "'a list \<Rightarrow> nat \<Rightarrow> 'a option" where
  "index xs i = (if i < length xs then Some (xs ! i) else None)"

text \<open>\<open>x?.field || fallback\<close> on a string field: the fallback also replaces the empty string.\<close>

definition or_else :: "string option \<Rightarrow> string \<Rightarrow> string" where
  "or_else v d = (case v of None \<Rightarrow> d | Some x \<Rightarrow> if x = [] then d else x)"

text \<open>\<open>if (cond) score += 1\<close>\<close>

definition bump :: "bool \<Rightarrow> nat \<Rightarrow> nat" where
  "bump cond n = (if cond then n + 1 else n)"

definition calculatePasswordStrength :: "jsstring \<Rightarrow> PasswordStrength" where
  "calculatePasswordStrength password =
     (let score = 0;
          score = bump (length password \<ge> 8) score;
          score = bump (length password \<ge> 12) score;
          score = bump (test (Cls is_lower) password) score;
          score = bump (test (Cls is_upper) password) score;
          score = bump (test (Cls is_digit) password) score;
          score = bump (test (Cls (\<lambda>c. \<not> (is_upper c \<or> is_lower c \<or> is_digit c))) password) score
      in \<lparr> score = score,
           label = or_else (map_option fst (index strengthMap score)) ''Very Weak'',
           color = or_else (map_option snd (index strengthMap score)) ''bg-red-500'' \<rparr>)"

text \<open>The regular expressions of \<open>validateField\<close>.\<close>

definition Chr :: "cu \<Rightarrow> rx" where
  "Chr c = Cls (\<lambda>x. x = c)"

text \<open>\<open>[^\s@]\<close>; \<open>@\<close> is 0x40 and \<open>.\<close> is 0x2E.\<close>

definition not_space_at :: "cu \<Rightarrow> bool" where
  "not_space_at c = (\<not> is_space c \<and> c \<noteq> 0x40)"

text \<open>\<open>/^[^\s@]+@[^\s@]+\.[^\s@]+$/\<close>, anchored at both ends.\<close>

definition email_re :: rx where
  "email_re =
     Seq (Plus (Cls not_space_at))
       (Seq (Chr 0x40)
          (Seq (Plus (Cls not_space_at))
             (Seq (Chr 0x2E) (Plus (Cls not_space_at)))))"

text \<open>
  \<open>[!@#$%^&*()_+\-=\[\]{};':"\\|,.<>\/?]\<close>: the thirty code units of the class, in the
  order of the source.
\<close>

definition is_special :: "cu \<Rightarrow> bool" where
  "is_special c =
     (c \<in> set [0x21, 0x40, 0x23, 0x24, 0x25, 0x5E, 0x26, 0x2A, 0x28, 0x29, 0x5F, 0x2B, 0x2D,
                0x3D, 0x5B, 0x5D, 0x7B, 0x7D, 0x3B, 0x27, 0x3A, 0x22, 0x5C, 0x7C, 0x2C, 0x2E,
                0x3C, 0x3E, 0x2F, 0x3F])"

text \<open>\<open>/(?=.*[...])/\<close>: a lookahead for a code unit of the class after any run of \<open>.\<close>\<close>

definition ahead :: "(cu \<Rightarrow> bool) \<Rightarrow> rx" where
  "ahead p = Look (Seq (Star Dot) (Cls p))"

record FormData =
  email :: jsstring
  password :: jsstring
  confirmPassword :: jsstring

datatype field = Email | Password | ConfirmPassword

text \<open>\<open>formData[key]\<close>\<close>

fun get_field :: "FormData \<Rightarrow> field \<Rightarrow> jsstring" where
  "get_field formData Email = email formData"
| "get_field formData Password = password formData"
| "get_field formData ConfirmPassword = confirmPassword formData"

text \<open>
  \<open>validateField\<close> closes over \<open>formData.password\<close>; \<open>None\<close> is \<open>undefined\<close>, no error.
\<close>

fun validateField :: "FormData \<Rightarrow> field \<Rightarrow> jsstring \<Rightarrow> string option" where
  "validateField formData Email value =
     (if trim value = [] then Some ''Email is required''
      else if \<not> test_anchored email_re value then Some ''Please enter a valid email address''
      else if length value > 254 then Some ''Email is too long''
      else None)"
| "validateField formData Password value =
     (if value = [] then Some ''Password is required''
      else if length value < 8 then Some ''Password must be at least 8 characters long''
      else if length value > 128 then Some ''Password is too long''
      else if \<not> test (ahead is_lower) value
        then Some ''Password must contain at least one lowercase letter''
      else if \<not> test (ahead is_upper) value
        then Some ''Password must contain at least one uppercase letter''
      else if \<not> test (ahead is_digit) value
        then Some ''Password must contain at least one number''
      else if \<not> test (ahead is_special) value
        then Some ''Password must contain at least one special character''
      else None)"
| "validateField formData ConfirmPassword value =
     (if value = [] then Some ''Please confirm your password''
      else if value \<noteq> password formData then Some ''Passwords do not match''
      else None)"

section \<open>Submitting the register form\<close>

text \<open>
  The \<open>errors\<close> state is an object from keys to messages: a list of pairs in insertion
  order, empty when \<open>Object.keys(errors).length === 0\<close>.
\<close>

type_synonym ValidationErrors = "(string \<times> json) list"

fun key_name :: "field \<Rightarrow> string" where
  "key_name Email = ''email''"
| "key_name Password = ''password''"
| "key_name ConfirmPassword = ''confirmPassword''"

text \<open>
  \<open>validateForm\<close>: the errors of the keys of \<open>formData\<close>, in their order, and whether
  there is none.
\<close>

definition validateForm :: "FormData \<Rightarrow> ValidationErrors \<times> bool" where
  "validateForm formData =
     (let newErrors =
        foldl (\<lambda>newErrors key.
                 case validateField formData key (get_field formData key) of
                   None \<Rightarrow> newErrors
                 | Some error \<Rightarrow>
                     if error = [] then newErrors else newErrors @ [(key_name key, lit error)])
          [] [Email, Password, ConfirmPassword]
      in (newErrors, newErrors = []))"

text \<open>
  What a handler does to the world outside its component: the requests it sends with
  \<open>fetch\<close>, its calls of \<open>signIn\<close>, the routes it pushes, the alerts it raises, the
  \<open>errors\<close> state it leaves, and an exception it lets escape. The \<open>touched\<close> and
  \<open>isLoading\<close> flags and the console are left out.
\<close>

record fetch_request =
  url :: string
  http_method :: string
  headers :: "(string \<times> string) list"
  request_body :: json

record signIn_call =
  provider :: string
  credentials_email :: jsstring
  credentials_password :: jsstring
  redirect :: bool

datatype alert = AlertText string | AlertThrown thrown

record effects =
  fetched :: "fetch_request list"
  signedIn :: "signIn_call list"
  pushed :: "string list"
  alerted :: "alert list"
  errors :: ValidationErrors
  uncaught :: "thrown option"

definition no_effects :: effects where
  "no_effects =
     \<lparr> fetched = [], signedIn = [], pushed = [], alerted = [], errors = [], uncaught = None \<rparr>"

text \<open>
  What \<open>await fetch(...)\<close> brings: a rejection, or a response with its status and what
  \<open>await response.json()\<close> gives (a thrown error when the body is not JSON).
\<close>

datatype fetch_outcome =
    FetchRejects thrown
  | FetchResponse nat "thrown + json"

text \<open>\<open>response.ok\<close>\<close>

definition ok_status :: "nat \<Rightarrow> bool" where
  "ok_status st = (200 \<le> st \<and> st \<le> 299)"

text \<open>\<open>error instanceof Error ? error.message : fallback\<close>\<close>

fun message_of :: "thrown \<Rightarrow> string \<Rightarrow> json" where
  "message_of (Error m) fallback = JStr m"
| "message_of NotAnError fallback = lit fallback"

text \<open>\<open>data.message || fallback\<close>\<close>

definition message_or :: "json \<Rightarrow> string \<Rightarrow> thrown + json" where
  "message_or data fallback =
     (case member data ''message'' of
        Inl e \<Rightarrow> Inl e
      | Inr m \<Rightarrow> Inr (if truthy m then the m else lit fallback))"

definition register_request :: "jsstring \<Rightarrow> jsstring \<Rightarrow> fetch_request" where
  "register_request e p =
     \<lparr> url = ''/api/auth/register'', http_method = ''POST'',
       headers = [(''Content-Type'', ''application/json'')],
       request_body = JObj [(js ''email'', JStr e), (js ''password'', JStr p)] \<rparr>"

text \<open>
  \<open>handleSubmit\<close> of src/app/register/page.tsx. \<open>toLowerCase\<close> is the engine's
  \<open>String.prototype.toLowerCase\<close>; \<open>fetch_result\<close> is what the one \<open>fetch\<close> brings.
\<close>

definition handleSubmit ::
  "(jsstring \<Rightarrow> jsstring) \<Rightarrow> fetch_outcome \<Rightarrow> FormData \<Rightarrow> effects" where
  "handleSubmit toLowerCase fetch_result formData =
     (case validateForm formData of
        (newErrors, False) \<Rightarrow> no_effects \<lparr> errors := newErrors \<rparr>
      | (newErrors, True) \<Rightarrow>
          (let sent = no_effects
                 \<lparr> fetched := [register_request (toLowerCase (trim (email formData)))
                                 (password formData)] \<rparr>;
               caught = (\<lambda>error. sent \<lparr> errors := [(''submit'', message_of error
                 ''Network error. Please check your connection and try again.'')] \<rparr>)
           in case fetch_result of
                FetchRejects error \<Rightarrow> caught error
              | FetchResponse st (Inl error) \<Rightarrow> caught error
              | FetchResponse st (Inr data) \<Rightarrow>
                  if \<not> ok_status st then
                    if st = 409 then
                      sent \<lparr> errors :=
                        [(''email'', lit ''An account with this email already exists'')] \<rparr>
                    else if st = 400 then
                      (case message_or data ''Invalid registration data'' of
                         Inl error \<Rightarrow> caught error
                       | Inr m \<Rightarrow> sent \<lparr> errors := [(''submit'', m)] \<rparr>)
                    else if st \<ge> 500 then
                      sent \<lparr> errors :=
                        [(''submit'', lit ''Server error. Please try again later.'')] \<rparr>
                    else
                      (case message_or data ''Registration failed. Please try again.'' of
                         Inl error \<Rightarrow> caught error
                       | Inr m \<Rightarrow> sent \<lparr> errors := [(''submit'', m)] \<rparr>)
                  else
                    sent \<lparr> pushed :=
                      [''/login?message=Registration successful! Please log in.''] \<rparr>))"

text \<open>
  \<open>handleSubmit\<close> of the plain register page (src/unnamed/part_002). Its state is the
  three strings \<open>email\<close>, \<open>password\<close> and \<open>confirmPassword\<close>, held here in one
  record.
\<close>

definition handleSubmit_plain :: "fetch_outcome \<Rightarrow> FormData \<Rightarrow> effects" where
  "handleSubmit_plain fetch_result state =
     (if password state \<noteq> confirmPassword state then
        no_effects \<lparr> alerted := [AlertText ''Password mismatch''] \<rparr>
      else
        (let sent = no_effects \<lparr> fetched := [register_request (email state) (password state)] \<rparr>
         in case fetch_result of
              FetchRejects error \<Rightarrow> sent \<lparr> alerted := [AlertThrown error] \<rparr>
            | FetchResponse st (Inl error) \<Rightarrow> sent \<lparr> alerted := [AlertThrown error] \<rparr>
            | FetchResponse st (Inr data) \<Rightarrow>
                if \<not> ok_status st then
                  sent \<lparr> alerted := [AlertThrown (Error (js ''REgisteration failed''))] \<rparr>
                else sent \<lparr> pushed := [''/login''] \<rparr>))"

section \<open>The login pages\<close>

text \<open>
  \<open>FormData\<close> and \<open>validateField\<close> of src/app/login/page.tsx; the plain login page
  (src/unnamed/part_000) keeps the same two strings in its state.
\<close>

record LoginFormData =
  login_email :: jsstring
  login_password :: jsstring

datatype login_field = LoginEmail | LoginPassword

fun get_login_field :: "LoginFormData \<Rightarrow> login_field \<Rightarrow> jsstring" where
  "get_login_field formData LoginEmail = login_email formData"
| "get_login_field formData LoginPassword = login_password formData"

fun login_key_name :: "login_field \<Rightarrow> string" where
  "login_key_name LoginEmail = ''email''"
| "login_key_name LoginPassword = ''password''"

fun validateField_login :: "login_field \<Rightarrow> jsstring \<Rightarrow> string option" where
  "validateField_login LoginEmail value =
     (if trim value = [] then Some ''Email is required''
      else if \<not> test_anchored email_re value then Some ''Please enter a valid email address''
      else None)"
| "validateField_login LoginPassword value =
     (if value = [] then Some ''Password is required''
      else if length value < 6 then Some ''Password must be at least 6 characters''
      else None)"

definition validateForm_login :: "LoginFormData \<Rightarrow> ValidationErrors \<times> bool" where
  "validateForm_login formData =
     (let newErrors =
        foldl (\<lambda>newErrors key.
                 case validateField_login key (get_login_field formData key) of
                   None \<Rightarrow> newErrors
                 | Some error \<Rightarrow>
                     if error = [] then newErrors
                     else newErrors @ [(login_key_name key, lit error)])
          [] [LoginEmail, LoginPassword]
      in (newErrors, newErrors = []))"

text \<open>
  The \<open>SignInResponse\<close> of next-auth with its members \<open>error\<close> (a string, \<open>null\<close>
  or \<open>undefined\<close>), \<open>ok\<close>, \<open>status\<close> and \<open>url\<close>. \<open>await signIn(...)\<close> throws, or
  returns a response or \<open>undefined\<close>.
\<close>

record SignInResponse =
  signIn_error :: "jsstring option"
  signIn_ok :: bool
  signIn_status :: nat
  signIn_url :: "jsstring option"

datatype signIn_outcome =
    SignInThrows thrown
  | SignInReturns "SignInResponse option"

text \<open>\<open>result?.error\<close> and \<open>result?.ok\<close> as conditions\<close>

definition has_error :: "SignInResponse option \<Rightarrow> bool" where
  "has_error result =
     (case result of None \<Rightarrow> False
      | Some r \<Rightarrow> (case signIn_error r of None \<Rightarrow> False | Some e \<Rightarrow> e \<noteq> []))"

definition is_ok :: "SignInResponse option \<Rightarrow> bool" where
  "is_ok result = (case result of None \<Rightarrow> False | Some r \<Rightarrow> signIn_ok r)"

definition credentials_call :: "jsstring \<Rightarrow> jsstring \<Rightarrow> signIn_call" where
  "credentials_call e p =
     \<lparr> provider = ''credentials'', credentials_email = e, credentials_password = p,
       redirect = False \<rparr>"

text \<open>The \<open>switch (result.error)\<close> of the login page.\<close>

definition signIn_error_message :: "jsstring \<Rightarrow> ValidationErrors" where
  "signIn_error_message e =
     (if e = js ''CredentialsSignin'' then
        [(''submit'', lit ''Invalid email or password. Please try again.'')]
      else if e = js ''EmailNotVerified'' then
        [(''submit'', lit ''Please verify your email before signing in.'')]
      else if e = js ''UserNotFound'' then
        [(''email'', lit ''No account found with this email address.'')]
      else if e = js ''TooManyAttempts'' then
        [(''submit'', lit ''Too many failed attempts. Please try again later.'')]
      else
        [(''submit'', if e = [] then lit ''Authentication failed. Please try again.'' else JStr e)])"

text \<open>\<open>handleSubmit\<close> of src/app/login/page.tsx.\<close>

definition handleSubmit_login ::
  "(jsstring \<Rightarrow> jsstring) \<Rightarrow> signIn_outcome \<Rightarrow> LoginFormData \<Rightarrow> effects" where
  "handleSubmit_login toLowerCase signIn_result formData =
     (case validateForm_login formData of
        (newErrors, False) \<Rightarrow> no_effects \<lparr> errors := newErrors \<rparr>
      | (newErrors, True) \<Rightarrow>
          (let called = no_effects
                 \<lparr> signedIn := [credentials_call (toLowerCase (trim (login_email formData)))
                                  (login_password formData)] \<rparr>
           in case signIn_result of
                SignInThrows error \<Rightarrow>
                  called \<lparr> errors := [(''submit'', message_of error
                    ''Network error. Please check your connection.'')] \<rparr>
              | SignInReturns result \<Rightarrow>
                  if has_error result then
                    called \<lparr> errors := signIn_error_message (the (signIn_error (the result))) \<rparr>
                  else if is_ok result then called \<lparr> pushed := [''/''] \<rparr>
                  else called \<lparr> errors :=
                    [(''submit'', lit ''An unexpected error occurred. Please try again.'')] \<rparr>))"

text \<open>
  \<open>handleSubmit\<close> of the plain login page (src/unnamed/part_000): no validation, the
  state is passed as it is, and \<open>signIn\<close> is awaited outside any \<open>try\<close>.
\<close>

definition handleSubmit_login_plain :: "signIn_outcome \<Rightarrow> LoginFormData \<Rightarrow> effects" where
  "handleSubmit_login_plain signIn_result state =
     (let called = no_effects
            \<lparr> signedIn := [credentials_call (login_email state) (login_password state)] \<rparr>
      in case signIn_result of
           SignInThrows error \<Rightarrow> called \<lparr> uncaught := Some error \<rparr>
         | SignInReturns result \<Rightarrow>
             if has_error result then called else called \<lparr> pushed := [''/''] \<rparr>)"

section \<open>Sample inputs\<close>

text \<open>What a call returned, when it did not throw.\<close>

definition returned :: "thrown + 'a \<Rightarrow> 'a option" where
  "returned r = (case r of Inl error \<Rightarrow> None | Inr a \<Rightarrow> Some a)"





text \<open>A registration request, the record it leads to, and a record of the same email.\<close>

definition sample_request :: "thrown + json" where
  "sample_request =
     Inr (JObj [(js ''email'', JStr (js ''a@b.co'')), (js ''password'', JStr (js ''Abcdef1!''))])"

definition sample_record :: user_record where
  "sample_record =
     \<lparr> record_email = Some (JStr (js ''a@b.co'')), record_password = Some (JStr (js ''Abcdef1!'')) \<rparr>"

definition earlier_record :: user_record where
  "earlier_record =
     \<lparr> record_email = Some (JStr (js ''a@b.co'')), record_password = Some (JStr (js ''Zyxwvu9?'')) \<rparr>"

text \<open>A database whose lookup, or whose insert, times out.\<close>

definition lookup_fails :: faults where
  "lookup_fails = \<lparr> findOne_throws = Some (Error (js ''timed out'')), create_throws = None \<rparr>"

definition insert_fails :: faults where
  "insert_fails = \<lparr> findOne_throws = None, create_throws = Some (Error (js ''timed out'')) \<rparr>"

text \<open>
  A login form that passes validation, with an email in upper case; a sign-in result
  that is neither an error nor ok, and one that is ok.
\<close>

definition sample_login :: LoginFormData where
  "sample_login = \<lparr> login_email = js ''A@B.CO'', login_password = js ''secret1'' \<rparr>"

definition not_ok_no_error :: SignInResponse where
  "not_ok_no_error =
     \<lparr> signIn_error = None, signIn_ok = False, signIn_status = 500, signIn_url = None \<rparr>"

definition signed_in :: SignInResponse where
  "signed_in =
     \<lparr> signIn_error = None, signIn_ok = True, signIn_status = 200, signIn_url = Some (js ''/'') \<rparr>"

text \<open>A login form that does not pass validation.\<close>

definition invalid_login :: LoginFormData where
  "invalid_login = \<lparr> login_email = js ''nobody'', login_password = [] \<rparr>"

text \<open>\<open>toLowerCase\<close> on a string of ASCII code units.\<close>

definition ascii_toLowerCase :: "jsstring \<Rightarrow> jsstring" where
  "ascii_toLowerCase s = map (\<lambda>c. if is_upper c then c + 0x20 else c) s"

section \<open>Theorems\<close>

subsection \<open>The matcher\<close>

text \<open>What remains after a class, a starred class, and a class repeated at least once.\<close>

lemma rests_Cls: "t \<in> set (rests (Cls p) s) \<longleftrightarrow> (\<exists>c. s = c # t \<and> p c)"
  by (cases s) auto

lemma star_rests_Cls:
  "t \<in> set (star_rests (rests (Cls p)) n s) \<longleftrightarrow>
     (\<exists>a. s = a @ t \<and> length a \<le> n \<and> (\<forall>x \<in> set a. p x))"
proof (induction n arbitrary: s)
  case 0
  then show ?case by auto
next
  case (Suc n)
  show ?case
  proof (cases s)
    case Nil
    then show ?thesis by auto
  next
    case (Cons c u)
    show ?thesis
    proof (cases "p c")
      case False
      then show ?thesis using Cons
        by (auto simp: Cons_eq_append_conv)
    next
      case True
      have "t \<in> set (star_rests (rests (Cls p)) (Suc n) s) \<longleftrightarrow>
              t = s \<or> t \<in> set (star_rests (rests (Cls p)) n u)"
        using Cons True by auto
      also have "\<dots> \<longleftrightarrow> t = s \<or> (\<exists>a. u = a @ t \<and> length a \<le> n \<and> (\<forall>x \<in> set a. p x))"
        by (simp add: Suc.IH)
      also have "\<dots> \<longleftrightarrow> (\<exists>a. s = a @ t \<and> length a \<le> Suc n \<and> (\<forall>x \<in> set a. p x))"
      proof
        assume "t = s \<or> (\<exists>a. u = a @ t \<and> length a \<le> n \<and> (\<forall>x \<in> set a. p x))"
        then show "\<exists>a. s = a @ t \<and> length a \<le> Suc n \<and> (\<forall>x \<in> set a. p x)"
        proof
          assume "t = s"
          then have "s = [] @ t \<and> length ([]::cu list) \<le> Suc n \<and> (\<forall>x \<in> set []. p x)" by simp
          then show ?thesis by blast
        next
          assume "\<exists>a. u = a @ t \<and> length a \<le> n \<and> (\<forall>x \<in> set a. p x)"
          then obtain a where "u = a @ t" "length a \<le> n" "\<forall>x \<in> set a. p x" by blast
          then have "s = (c # a) @ t \<and> length (c # a) \<le> Suc n \<and> (\<forall>x \<in> set (c # a). p x)"
            using Cons True by simp
          then show ?thesis by blast
        qed
      next
        assume "\<exists>a. s = a @ t \<and> length a \<le> Suc n \<and> (\<forall>x \<in> set a. p x)"
        then obtain a where a: "s = a @ t" "length a \<le> Suc n" "\<forall>x \<in> set a. p x" by blast
        show "t = s \<or> (\<exists>a. u = a @ t \<and> length a \<le> n \<and> (\<forall>x \<in> set a. p x))"
        proof (cases a)
          case Nil
          then show ?thesis using a by simp
        next
          case (Cons d a')
          then have "u = a' @ t \<and> length a' \<le> n \<and> (\<forall>x \<in> set a'. p x)"
            using a \<open>s = c # u\<close> by simp
          then show ?thesis by blast
        qed
      qed
      finally show ?thesis .
    qed
  qed
qed

lemma rests_Star_Cls:
  "t \<in> set (rests (Star (Cls p)) s) \<longleftrightarrow> (\<exists>a. s = a @ t \<and> (\<forall>x \<in> set a. p x))"
proof -
  have "\<And>a. s = a @ t \<Longrightarrow> length a \<le> length s" by simp
  then show ?thesis by (auto simp: star_rests_Cls)
qed

lemma rests_Seq: "t \<in> set (rests (Seq a b) s) \<longleftrightarrow> (\<exists>u \<in> set (rests a s). t \<in> set (rests b u))"
  by auto

lemma rests_Plus_Cls:
  "t \<in> set (rests (Plus (Cls p)) s) \<longleftrightarrow> (\<exists>a. a \<noteq> [] \<and> s = a @ t \<and> (\<forall>x \<in> set a. p x))"
proof
  assume "t \<in> set (rests (Plus (Cls p)) s)"
  then obtain u where u: "u \<in> set (rests (Cls p) s)" "t \<in> set (rests (Star (Cls p)) u)"
    unfolding Plus_def rests_Seq by blast
  from u(1) obtain c where c: "s = c # u" "p c"
    using rests_Cls [of u p s] by blast
  from u(2) obtain a where a: "u = a @ t" "\<forall>x \<in> set a. p x"
    using rests_Star_Cls [of t p u] by blast
  have "c # a \<noteq> [] \<and> s = (c # a) @ t \<and> (\<forall>x \<in> set (c # a). p x)"
    using c a by simp
  then show "\<exists>a. a \<noteq> [] \<and> s = a @ t \<and> (\<forall>x \<in> set a. p x)" by blast
next
  assume "\<exists>a. a \<noteq> [] \<and> s = a @ t \<and> (\<forall>x \<in> set a. p x)"
  then obtain a where a: "a \<noteq> []" "s = a @ t" "\<forall>x \<in> set a. p x" by blast
  then obtain c a' where ca: "a = c # a'" by (cases a) auto
  have 1: "a' @ t \<in> set (rests (Cls p) s)" using a ca by (simp add: rests_Cls)
  have 2: "t \<in> set (rests (Star (Cls p)) (a' @ t))"
    unfolding rests_Star_Cls using a ca by auto
  show "t \<in> set (rests (Plus (Cls p)) s)"
    unfolding Plus_def rests_Seq using 1 2 by blast
qed

lemma rests_Chr: "t \<in> set (rests (Chr c) s) \<longleftrightarrow> s = c # t"
  by (auto simp: Chr_def rests_Cls)

text \<open>
  What the email expression matches: a non-empty run, \<open>@\<close>, a non-empty run, \<open>.\<close>
  and a non-empty run, where the runs have no white space and no \<open>@\<close>.
\<close>

lemma email_re_shape:
  "test_anchored email_re s \<longleftrightarrow>
     (\<exists>a b c. s = a @ 0x40 # b @ 0x2E # c \<and> a \<noteq> [] \<and> b \<noteq> [] \<and> c \<noteq> [] \<and>
        (\<forall>x \<in> set (a @ b @ c). not_space_at x))"
proof
  assume "test_anchored email_re s"
  then obtain t1 t2 t3 t4 where
    1: "t1 \<in> set (rests (Plus (Cls not_space_at)) s)" and
    2: "t2 \<in> set (rests (Chr 0x40) t1)" and
    3: "t3 \<in> set (rests (Plus (Cls not_space_at)) t2)" and
    4: "t4 \<in> set (rests (Chr 0x2E) t3)" and
    5: "[] \<in> set (rests (Plus (Cls not_space_at)) t4)"
    unfolding test_anchored_def email_re_def rests_Seq by blast
  from 1 obtain a where a: "a \<noteq> []" "s = a @ t1" "\<forall>x \<in> set a. not_space_at x"
    unfolding rests_Plus_Cls by blast
  from 2 have t1: "t1 = 0x40 # t2" unfolding rests_Chr .
  from 3 obtain b where b: "b \<noteq> []" "t2 = b @ t3" "\<forall>x \<in> set b. not_space_at x"
    unfolding rests_Plus_Cls by blast
  from 4 have t3: "t3 = 0x2E # t4" unfolding rests_Chr .
  from 5 obtain c where c: "c \<noteq> []" "t4 = c @ []" "\<forall>x \<in> set c. not_space_at x"
    unfolding rests_Plus_Cls by blast
  have "s = a @ 0x40 # b @ 0x2E # c \<and> a \<noteq> [] \<and> b \<noteq> [] \<and> c \<noteq> [] \<and>
        (\<forall>x \<in> set (a @ b @ c). not_space_at x)"
    using a b c t1 t3 by auto
  then show "\<exists>a b c. s = a @ 0x40 # b @ 0x2E # c \<and> a \<noteq> [] \<and> b \<noteq> [] \<and> c \<noteq> [] \<and>
        (\<forall>x \<in> set (a @ b @ c). not_space_at x)" by blast
next
  assume "\<exists>a b c. s = a @ 0x40 # b @ 0x2E # c \<and> a \<noteq> [] \<and> b \<noteq> [] \<and> c \<noteq> [] \<and>
        (\<forall>x \<in> set (a @ b @ c). not_space_at x)"
  then obtain a b c where s: "s = a @ 0x40 # b @ 0x2E # c" and ne: "a \<noteq> []" "b \<noteq> []" "c \<noteq> []"
    and cls: "\<forall>x \<in> set a. not_space_at x" "\<forall>x \<in> set b. not_space_at x"
      "\<forall>x \<in> set c. not_space_at x"
    by auto
  have 1: "0x40 # b @ 0x2E # c \<in> set (rests (Plus (Cls not_space_at)) s)"
    unfolding rests_Plus_Cls using s ne cls by blast
  have 2: "b @ 0x2E # c \<in> set (rests (Chr 0x40) (0x40 # b @ 0x2E # c))"
    unfolding rests_Chr by simp
  have 3: "0x2E # c \<in> set (rests (Plus (Cls not_space_at)) (b @ 0x2E # c))"
    unfolding rests_Plus_Cls using ne cls by blast
  have 4: "c \<in> set (rests (Chr 0x2E) (0x2E # c))"
    unfolding rests_Chr by simp
  have 5: "[] \<in> set (rests (Plus (Cls not_space_at)) c)"
    unfolding rests_Plus_Cls using ne cls by auto
  show "test_anchored email_re s"
    unfolding test_anchored_def email_re_def rests_Seq using 1 2 3 4 5 by blast
qed

lemma tails_set: "t \<in> set (tails s) \<longleftrightarrow> (\<exists>a. s = a @ t)"
proof (induction s)
  case Nil
  then show ?case by auto
next
  case (Cons x xs)
  then show ?case by (auto simp: Cons_eq_append_conv)
qed

text \<open>
  An unanchored class, and a lookahead for the class after \<open>.*\<close>, both ask whether some
  code unit of the string is in the class.
\<close>

lemma test_Cls: "test (Cls p) s \<longleftrightarrow> (\<exists>x \<in> set s. p x)"
proof -
  have "test (Cls p) s \<longleftrightarrow> (\<exists>t \<in> set (tails s). \<exists>u. u \<in> set (rests (Cls p) t))"
    unfolding test_def list_ex_iff by (metis all_not_in_conv set_empty)
  also have "\<dots> \<longleftrightarrow> (\<exists>a c u. s = a @ c # u \<and> p c)"
    unfolding rests_Cls Bex_def tails_set by blast
  also have "\<dots> \<longleftrightarrow> (\<exists>x \<in> set s. p x)"
    by (metis in_set_conv_decomp)
  finally show ?thesis .
qed


lemma test_ahead: "test (ahead p) s \<longleftrightarrow> (\<exists>x \<in> set s. p x)"
proof
  assume "test (ahead p) s"
  then obtain t where t: "t \<in> set (tails s)" "rests (Seq (Star Dot) (Cls p)) t \<noteq> []"
    unfolding test_def list_ex_iff ahead_def by (auto split: if_splits)
  from t(2) obtain v where "v \<in> set (rests (Seq (Star Dot) (Cls p)) t)"
    by (meson all_not_in_conv set_empty)
  then obtain u where u: "u \<in> set (rests (Star Dot) t)" "v \<in> set (rests (Cls p) u)"
    unfolding rests_Seq by blast
  from u(1) obtain a where a: "t = a @ u"
    unfolding Dot_def rests_Star_Cls by blast
  from u(2) obtain c where c: "u = c # v" "p c"
    unfolding rests_Cls by blast
  from t(1) obtain b where "s = b @ t"
    unfolding tails_set by blast
  then have "c \<in> set s" using a c by simp
  then show "\<exists>x \<in> set s. p x" using c by blast
next
  assume "\<exists>x \<in> set s. p x"
  then obtain b x v where s: "s = b @ x # v" and x: "p x"
    by (metis in_set_conv_decomp)
  have 1: "x # v \<in> set (tails s)"
    unfolding tails_set using s by blast
  have 2: "x # v \<in> set (rests (Star Dot) (x # v))"
    unfolding Dot_def rests_Star_Cls by (rule exI [of _ "[]"]) simp
  have 3: "v \<in> set (rests (Cls p) (x # v))"
    unfolding rests_Cls using x by blast
  have "v \<in> set (rests (Seq (Star Dot) (Cls p)) (x # v))"
    unfolding rests_Seq using 2 3 by blast
  then have "rests (Seq (Star Dot) (Cls p)) (x # v) \<noteq> []"
    by (metis empty_iff empty_set)
  then have "rests (ahead p) (x # v) \<noteq> []"
    by (simp add: ahead_def del: rests.simps(2))
  then show "test (ahead p) s"
    unfolding test_def list_ex_iff using 1 by blast
qed

text \<open>A string that matches the email expression is not blank.\<close>

lemma email_re_not_blank: "test_anchored email_re s \<Longrightarrow> trim s \<noteq> []"
proof -
  assume "test_anchored email_re s"
  then obtain a b c where s: "s = a @ 0x40 # b @ 0x2E # c" and "a \<noteq> []"
    and all: "\<forall>x \<in> set (a @ b @ c). not_space_at x"
    unfolding email_re_shape by blast
  then obtain x a' where a: "a = x # a'" by (cases a) auto
  have "\<not> is_space x" using all a by (auto simp: not_space_at_def)
  then have 1: "dropWhile is_space s = s" using s a by simp
  have "\<not> is_space (0x2E :: cu)"
    by (simp add: is_space_def is_line_terminator_def)
  then have "dropWhile is_space (rev s) \<noteq> []"
    using s by (auto simp: dropWhile_append)
  then show "trim s \<noteq> []"
    by (simp add: trim_def 1)
qed

subsection \<open>Password strength\<close>

lemma score_sum:
  "score (calculatePasswordStrength p) =
     of_bool (length p \<ge> 8) + of_bool (length p \<ge> 12) + of_bool (test (Cls is_lower) p) +
     of_bool (test (Cls is_upper) p) + of_bool (test (Cls is_digit) p) +
     of_bool (test (Cls (\<lambda>c. \<not> (is_upper c \<or> is_lower c \<or> is_digit c))) p)"
  by (simp add: calculatePasswordStrength_def Let_def bump_def)

lemma label_color:
  "(label (calculatePasswordStrength p), color (calculatePasswordStrength p)) =
     (case index strengthMap (score (calculatePasswordStrength p)) of
        None \<Rightarrow> (''Very Weak'', ''bg-red-500'') | Some e \<Rightarrow> e)"
proof -
  have "\<forall>e \<in> set strengthMap. fst e \<noteq> [] \<and> snd e \<noteq> []"
    by (simp add: strengthMap_def)
  then have *: "\<And>n e. index strengthMap n = Some e \<Longrightarrow> fst e \<noteq> [] \<and> snd e \<noteq> []"
    using nth_mem by (fastforce simp: index_def split: if_splits)
  show ?thesis
    using * by (cases "index strengthMap (score (calculatePasswordStrength p))")
     (auto simp: calculatePasswordStrength_def Let_def or_else_def)
qed

text \<open>
  Claim C10. For every password, \<open>calculatePasswordStrength\<close> returns a score of at most 6
  with a label and a color that are an entry of the table; below 6 it is the entry at the
  score. The score is 6 exactly when all six criteria hold, and then the table has no
  entry at the score and the label and color are the fallbacks, "Very Weak" and
  "bg-red-500".
\<close>

theorem strength_range:
  "score (calculatePasswordStrength p) \<le> 6 \<and>
   (label (calculatePasswordStrength p), color (calculatePasswordStrength p)) \<in> set strengthMap \<and>
   (score (calculatePasswordStrength p) < 6 \<longrightarrow>
      (label (calculatePasswordStrength p), color (calculatePasswordStrength p)) =
        strengthMap ! score (calculatePasswordStrength p)) \<and>
   (score (calculatePasswordStrength p) = 6 \<longleftrightarrow>
      length p \<ge> 8 \<and> length p \<ge> 12 \<and> test (Cls is_lower) p \<and> test (Cls is_upper) p \<and>
      test (Cls is_digit) p \<and> test (Cls (\<lambda>c. \<not> (is_upper c \<or> is_lower c \<or> is_digit c))) p) \<and>
   (score (calculatePasswordStrength p) = 6 \<longrightarrow>
      index strengthMap (score (calculatePasswordStrength p)) = None \<and>
      label (calculatePasswordStrength p) = ''Very Weak'' \<and>
      color (calculatePasswordStrength p) = ''bg-red-500'')"
proof -
  let ?r = "calculatePasswordStrength p"
  have le: "score ?r \<le> 6" by (simp add: score_sum of_bool_def)
  have six: "score ?r = 6 \<longleftrightarrow>
      length p \<ge> 8 \<and> length p \<ge> 12 \<and> test (Cls is_lower) p \<and> test (Cls is_upper) p \<and>
      test (Cls is_digit) p \<and> test (Cls (\<lambda>c. \<not> (is_upper c \<or> is_lower c \<or> is_digit c))) p"
    unfolding score_sum by (simp add: of_bool_def)
  have len: "length strengthMap = 6" by (simp add: strengthMap_def)
  have lt: "score ?r < 6 \<Longrightarrow> (label ?r, color ?r) = strengthMap ! score ?r"
    by (simp add: label_color index_def len)
  have eq6: "score ?r = 6 \<Longrightarrow>
      index strengthMap (score ?r) = None \<and> (label ?r, color ?r) = (''Very Weak'', ''bg-red-500'')"
    by (simp add: label_color index_def len)
  have mem: "(label ?r, color ?r) \<in> set strengthMap"
  proof (cases "score ?r < 6")
    case True
    then show ?thesis using lt len by (metis nth_mem)
  next
    case False
    with le have "score ?r = 6" by simp
    then show ?thesis using eq6 by (simp add: strengthMap_def)
  qed
  show ?thesis using le six lt eq6 mem by blast
qed

text \<open>The password \<open>Abcdefgh1234!\<close> meets the six criteria.\<close>

theorem strength_range_witness:
  "score (calculatePasswordStrength (js ''Abcdefgh1234!'')) = 6 \<and>
   index strengthMap 6 = None \<and>
   label (calculatePasswordStrength (js ''Abcdefgh1234!'')) = ''Very Weak'' \<and>
   color (calculatePasswordStrength (js ''Abcdefgh1234!'')) = ''bg-red-500''"
proof -
  have six: "score (calculatePasswordStrength (js ''Abcdefgh1234!'')) = 6"
    by (simp add: calculatePasswordStrength_def js_def test_def bump_def
        is_lower_def is_upper_def is_digit_def)
  from strength_range [of "js ''Abcdefgh1234!''"] six show ?thesis
    by simp
qed

subsection \<open>Field validation of the register form\<close>

text \<open>
  Claim C5. The field validation of the register form reports no error for an email
  exactly when the string is not blank after trimming, matches the regular expression
  and is at most 254 code units long.
\<close>

theorem email_accepted_iff:
  "validateField formData Email value = None \<longleftrightarrow>
     trim value \<noteq> [] \<and> test_anchored email_re value \<and> length value \<le> 254"
  by auto

theorem email_accepted_iff_witness:
  "validateField \<lparr>email = [], password = [], confirmPassword = []\<rparr> Email (js ''a@b.co'') = None"
proof -
  have "trim (js ''a@b.co'') \<noteq> []"
    by (simp add: js_def trim_def is_space_def is_line_terminator_def)
  moreover have "test_anchored email_re (js ''a@b.co'')"
    by (simp add: js_def test_anchored_def email_re_def Plus_def Chr_def not_space_at_def
        is_space_def is_line_terminator_def)
  moreover have "length (js ''a@b.co'') \<le> 254"
    by (simp add: js_def)
  ultimately show ?thesis
    using email_accepted_iff [of "\<lparr>email = [], password = [], confirmPassword = []\<rparr>" "js ''a@b.co''"]
    by blast
qed

text \<open>
  In terms of the shape of the string: the first check follows from the second. The
  login page has the same checks but no bound on the length.
\<close>

lemma email_accepted_shape:
  "validateField formData Email value = None \<longleftrightarrow>
     length value \<le> 254 \<and>
     (\<exists>a b c. value = a @ 0x40 # b @ 0x2E # c \<and> a \<noteq> [] \<and> b \<noteq> [] \<and> c \<noteq> [] \<and>
        (\<forall>x \<in> set (a @ b @ c). not_space_at x))"
  using email_re_not_blank [of "value"] email_re_shape [of "value"] by auto

lemma login_email_accepted_iff:
  "validateField_login LoginEmail value = None \<longleftrightarrow>
     trim value \<noteq> [] \<and> test_anchored email_re value"
  by auto

subsection \<open>Submitting the register form\<close>

lemma confirm_mismatch:
  "password formData \<noteq> confirmPassword formData \<Longrightarrow>
     \<exists>m. m \<noteq> [] \<and> validateField formData ConfirmPassword (confirmPassword formData) = Some m"
  by auto

lemma validateForm_mismatch:
  assumes "password formData \<noteq> confirmPassword formData"
  shows "snd (validateForm formData) = False"
proof -
  obtain m where m: "m \<noteq> []"
    "validateField formData ConfirmPassword (confirmPassword formData) = Some m"
    using confirm_mismatch [OF assms] by blast
  show ?thesis
    unfolding validateForm_def Let_def using m
    by (simp split: option.split)
qed

text \<open>
  Claim C9. When the password differs from its confirmation, the submit handler of
  either register page returns without sending a request.
\<close>

theorem mismatch_sends_nothing:
  assumes "password formData \<noteq> confirmPassword formData"
  shows "fetched (handleSubmit toLowerCase fetch_result formData) = [] \<and>
         fetched (handleSubmit_plain fetch_result formData) = []"
proof -
  have "snd (validateForm formData) = False"
    using assms by (rule validateForm_mismatch)
  then obtain errs where "validateForm formData = (errs, False)"
    by (cases "validateForm formData") auto
  then have "fetched (handleSubmit toLowerCase fetch_result formData) = []"
    by (simp add: handleSubmit_def no_effects_def)
  moreover have "fetched (handleSubmit_plain fetch_result formData) = []"
    using assms by (simp add: handleSubmit_plain_def no_effects_def)
  ultimately show ?thesis by simp
qed

text \<open>A form whose confirmation lacks the last character of an otherwise valid password.\<close>

theorem mismatch_sends_nothing_witness:
  "password \<lparr>email = js ''a@b.co'', password = js ''Abcdef1!'', confirmPassword = js ''Abcdef1''\<rparr>
     \<noteq> confirmPassword
          \<lparr>email = js ''a@b.co'', password = js ''Abcdef1!'', confirmPassword = js ''Abcdef1''\<rparr> \<and>
   fetched (handleSubmit id (FetchResponse 201 (Inr JNull))
     \<lparr>email = js ''a@b.co'', password = js ''Abcdef1!'', confirmPassword = js ''Abcdef1''\<rparr>) = [] \<and>
   fetched (handleSubmit_plain (FetchResponse 201 (Inr JNull))
     \<lparr>email = js ''a@b.co'', password = js ''Abcdef1!'', confirmPassword = js ''Abcdef1''\<rparr>) = []"
proof -
  have ne: "password \<lparr>email = js ''a@b.co'', password = js ''Abcdef1!'', confirmPassword = js ''Abcdef1''\<rparr>
     \<noteq> confirmPassword
          \<lparr>email = js ''a@b.co'', password = js ''Abcdef1!'', confirmPassword = js ''Abcdef1''\<rparr>"
    by (simp add: js_def)
  from mismatch_sends_nothing [OF ne, of id "FetchResponse 201 (Inr JNull)"] ne
  show ?thesis by blast
qed

subsection \<open>The cached database connection\<close>

lemma connectDb_fresh: "connectDb p fresh = (Inr None, fresh \<lparr> connects := [p] \<rparr>)"
  by (simp add: connectDb_def fresh_def)

lemma connectDb_uncached:
  "conn (cached g) = None \<Longrightarrow> promise (cached g) = None \<Longrightarrow>
     connectDb p g = (Inr None, g \<lparr> connects := connects g @ [p] \<rparr>)"
  by (simp add: connectDb_def Let_def)

text \<open>
  Claim C1. In a fresh process two calls of \<open>connectDb\<close> both call \<open>mongoose.connect\<close>,
  both leave \<open>cached.promise\<close> and \<open>cached.conn\<close> null, and both return \<open>null\<close>:
  the promise is never stored, no handle is returned and nothing is reused.
\<close>

theorem connectDb_never_caches:
  "connectDb (Resolves Connection) fresh =
     (Inr None, fresh \<lparr> connects := [Resolves Connection] \<rparr>) \<and>
   connectDb (Resolves Connection) (fresh \<lparr> connects := [Resolves Connection] \<rparr>) =
     (Inr None, fresh \<lparr> connects := [Resolves Connection, Resolves Connection] \<rparr>)"
  by (simp add: connectDb_def fresh_def)

lemma connectDb_calls_uncached:
  "conn (cached g) = None \<Longrightarrow> promise (cached g) = None \<Longrightarrow>
     connectDb_calls ps g =
       (replicate (length ps) (Inr None), g \<lparr> connects := connects g @ ps \<rparr>)"
proof (induction ps arbitrary: g)
  case Nil
  then show ?case by simp
next
  case (Cons p ps)
  let ?g = "g \<lparr> connects := connects g @ [p] \<rparr>"
  have step: "connectDb p g = (Inr None, ?g)"
    using Cons.prems by (rule connectDb_uncached)
  have "conn (cached ?g) = None" "promise (cached ?g) = None"
    using Cons.prems by simp_all
  then have "connectDb_calls ps ?g =
      (replicate (length ps) (Inr None), ?g \<lparr> connects := connects ?g @ ps \<rparr>)"
    by (rule Cons.IH)
  then show ?case using step by simp
qed

text \<open>
  From a fresh module every call returns \<open>null\<close>, whatever its connection attempt does,
  and the cache stays empty: no run of calls reaches a state with a cached promise.
\<close>

lemma connectDb_calls_fresh:
  "connectDb_calls ps fresh = (replicate (length ps) (Inr None), fresh \<lparr> connects := ps \<rparr>)"
  using connectDb_calls_uncached [of fresh ps] by (simp add: fresh_def)

text \<open>A call makes at most one connection attempt.\<close>

lemma connectDb_at_most_one:
  "length (connects (snd (connectDb p g))) \<le> length (connects g) + 1"
  by (auto simp: connectDb_def Let_def split: option.splits promise.splits)

text \<open>
  Claim C4. In a fresh process a call of \<open>connectDb\<close> whose one connection attempt is
  refused makes that attempt and no other, but it awaits \<open>null\<close> and not the promise of
  the attempt: it returns \<open>null\<close> and throws nothing, so the error does not reach the
  caller.
\<close>

theorem connectDb_drops_rejection:
  "connectDb (Rejects (Error (js ''refused''))) fresh =
     (Inr None, fresh \<lparr> connects := [Rejects (Error (js ''refused''))] \<rparr>)"
  by (simp add: connectDb_def fresh_def)

subsection \<open>The register route\<close>

lemma find_SomeD: "find P xs = Some x \<Longrightarrow> x \<in> set xs \<and> P x"
  by (induction xs) (auto split: if_splits)

lemma POST_User_of:
  assumes "request_json = Inr parsed" "member parsed ''email'' = Inr e"
    "member parsed ''password'' = Inr pw" "truthy e" "truthy pw"
  shows "POST (User_of f) connecting request_json s =
     (case connectDb connecting (db s) of
        (Inl error, g) \<Rightarrow>
          (json_response [(''error'', lit ''Failed to register user'')] 400, s \<lparr> db := g \<rparr>)
      | (Inr c, g) \<Rightarrow>
          if findOne_throws f \<noteq> None then
            (json_response [(''error'', lit ''Failed to register user'')] 400, s \<lparr> db := g \<rparr>)
          else if \<exists>r \<in> set (users s). record_email r = e then
            (json_response [(''error'', lit ''User already registered'')] 400, s \<lparr> db := g \<rparr>)
          else if create_throws f \<noteq> None then
            (json_response [(''error'', lit ''Failed to register user'')] 400, s \<lparr> db := g \<rparr>)
          else
            (json_response [(''message'', lit ''User  registered successfully'')] 201,
             s \<lparr> db := g, users := users s @ [\<lparr> record_email = e, record_password = pw \<rparr>] \<rparr>))"
  using assms
  by (auto simp: POST_def Let_def User_of_def find_None_iff dest: find_SomeD split: sum.splits option.splits prod.splits)

lemma sample_request_members:
  "member (JObj [(js ''email'', JStr (js ''a@b.co'')), (js ''password'', JStr (js ''Abcdef1!''))])
     ''email'' = Inr (Some (JStr (js ''a@b.co'')))"
  "member (JObj [(js ''email'', JStr (js ''a@b.co'')), (js ''password'', JStr (js ''Abcdef1!''))])
     ''password'' = Inr (Some (JStr (js ''Abcdef1!'')))"
  "truthy (Some (JStr (js ''a@b.co'')))" "truthy (Some (JStr (js ''Abcdef1!'')))"
  by (simp_all add: js_def)

text \<open>
  Claim C8. Whatever the request, the ORM and the state, \<open>POST\<close> answers 201 or 400, never
  409 and never a status from 500 on. It answers 201 exactly when the body parsed, both
  members are truthy, \<open>connectDb\<close> and the lookup did not throw, the lookup found no
  document and the insert returned; a body that is not JSON, a missing email or password,
  a found document and every thrown error give 400.
\<close>

theorem POST_status:
  "(status (fst (POST User connecting request_json s)) = 201 \<or>
    status (fst (POST User connecting request_json s)) = 400) \<and>
   status (fst (POST User connecting request_json s)) \<noteq> 409 \<and>
   \<not> 500 \<le> status (fst (POST User connecting request_json s)) \<and>
   (status (fst (POST User connecting request_json s)) = 201 \<longleftrightarrow>
      (\<exists>parsed email password c g stored.
         request_json = Inr parsed \<and>
         member parsed ''email'' = Inr email \<and> member parsed ''password'' = Inr password \<and>
         truthy email \<and> truthy password \<and>
         connectDb connecting (db s) = (Inr c, g) \<and>
         findOne User (users s) email = Inr None \<and>
         create User (users s) email password = Inr stored))"
  by (auto simp: POST_def Let_def json_response_def split: sum.splits option.splits prod.splits)

text \<open>
  A registration that succeeds, one whose insert throws, and a body that is not JSON.
\<close>

theorem POST_status_witness:
  "status (fst (POST (User_of no_faults) (Resolves Connection) sample_request
     \<lparr> db = fresh, users = [] \<rparr>)) = 201 \<and>
   status (fst (POST (User_of insert_fails) (Resolves Connection) sample_request
     \<lparr> db = fresh, users = [] \<rparr>)) = 400 \<and>
   status (fst (POST (User_of no_faults) (Resolves Connection) (Inl (Error (js ''Unexpected token'')))
     \<lparr> db = fresh, users = [] \<rparr>)) = 400"
proof -
  have ok: "\<exists>parsed email password c g stored.
         sample_request = Inr parsed \<and>
         member parsed ''email'' = Inr email \<and> member parsed ''password'' = Inr password \<and>
         truthy email \<and> truthy password \<and>
         connectDb (Resolves Connection) (db \<lparr> db = fresh, users = [] \<rparr>) = (Inr c, g) \<and>
         findOne (User_of no_faults) (users \<lparr> db = fresh, users = [] \<rparr>) email = Inr None \<and>
         create (User_of no_faults) (users \<lparr> db = fresh, users = [] \<rparr>) email password = Inr stored"
    unfolding sample_request_def
    by (intro exI conjI, rule refl, rule sample_request_members, rule sample_request_members,
        rule sample_request_members, rule sample_request_members)
       (simp_all add: connectDb_fresh User_of_def no_faults_def)
  have a: "status (fst (POST (User_of no_faults) (Resolves Connection) sample_request
     \<lparr> db = fresh, users = [] \<rparr>)) = 201"
    using POST_status [of "User_of no_faults" "Resolves Connection" sample_request
        "\<lparr> db = fresh, users = [] \<rparr>"] ok by blast
  have nb: "\<not> (\<exists>parsed email password c g stored.
         sample_request = Inr parsed \<and>
         member parsed ''email'' = Inr email \<and> member parsed ''password'' = Inr password \<and>
         truthy email \<and> truthy password \<and>
         connectDb (Resolves Connection) (db \<lparr> db = fresh, users = [] \<rparr>) = (Inr c, g) \<and>
         findOne (User_of insert_fails) (users \<lparr> db = fresh, users = [] \<rparr>) email = Inr None \<and>
         create (User_of insert_fails) (users \<lparr> db = fresh, users = [] \<rparr>) email password = Inr stored)"
    by (simp add: User_of_def insert_fails_def)
  have b: "status (fst (POST (User_of insert_fails) (Resolves Connection) sample_request
     \<lparr> db = fresh, users = [] \<rparr>)) = 400"
    using POST_status [of "User_of insert_fails" "Resolves Connection" sample_request
        "\<lparr> db = fresh, users = [] \<rparr>"] nb by blast
  have c: "status (fst (POST (User_of no_faults) (Resolves Connection) (Inl (Error (js ''Unexpected token'')))
     \<lparr> db = fresh, users = [] \<rparr>)) = 400"
    using POST_status [of "User_of no_faults" "Resolves Connection" "Inl (Error (js ''Unexpected token''))"
        "\<lparr> db = fresh, users = [] \<rparr>"] by blast
  show ?thesis using a b c by simp
qed

text \<open>
  Claim C2, amended. For a body with a truthy email and password: when a record of that
  email exists, the route inserts nothing and answers 400, with the error "User already
  registered" when neither \<open>connectDb\<close> nor the lookup throws and with "Failed to register
  user" when one of them does. Whenever the collection changes, no record of that email
  existed and the change is the one new record.
\<close>

theorem duplicate_email_rejected:
  assumes "request_json = Inr parsed" "member parsed ''email'' = Inr e"
    "member parsed ''password'' = Inr pw" "truthy e" "truthy pw"
  shows "((\<exists>r \<in> set (users s). record_email r = e) \<longrightarrow>
            users (snd (POST (User_of f) connecting request_json s)) = users s \<and>
            fst (POST (User_of f) connecting request_json s) =
              (if isl (fst (connectDb connecting (db s))) \<or> findOne_throws f \<noteq> None
               then json_response [(''error'', lit ''Failed to register user'')] 400
               else json_response [(''error'', lit ''User already registered'')] 400)) \<and>
         (users (snd (POST (User_of f) connecting request_json s)) \<noteq> users s \<longrightarrow>
            (\<forall>r \<in> set (users s). record_email r \<noteq> e) \<and>
            users (snd (POST (User_of f) connecting request_json s)) =
              users s @ [\<lparr> record_email = e, record_password = pw \<rparr>])"
  unfolding POST_User_of [OF assms]
  by (cases "connectDb connecting (db s)"; cases "fst (connectDb connecting (db s))") auto

theorem duplicate_email_rejected_witness:
  "fst (POST (User_of no_faults) (Resolves Connection) sample_request
     \<lparr> db = fresh, users = [earlier_record] \<rparr>) =
     json_response [(''error'', lit ''User already registered'')] 400 \<and>
   users (snd (POST (User_of no_faults) (Resolves Connection) sample_request
     \<lparr> db = fresh, users = [earlier_record] \<rparr>)) = [earlier_record]"
proof -
  have ex: "\<exists>r \<in> set (users \<lparr> db = fresh, users = [earlier_record] \<rparr>).
      record_email r = Some (JStr (js ''a@b.co''))"
    by (simp add: earlier_record_def)
  have ok: "\<not> (isl (fst (connectDb (Resolves Connection) (db \<lparr> db = fresh, users = [earlier_record] \<rparr>)))
      \<or> findOne_throws no_faults \<noteq> None)"
    by (simp add: connectDb_fresh no_faults_def)
  from duplicate_email_rejected [OF sample_request_def sample_request_members,
      of "\<lparr> db = fresh, users = [earlier_record] \<rparr>" no_faults "Resolves Connection"] ex ok
  show ?thesis by simp
qed

text \<open>
  As stated the claim fails: a record of the email exists, the lookup throws, and the
  answer is "Failed to register user" and not "User already registered".
\<close>

theorem duplicate_email_lookup_throws:
  "fst (POST (User_of lookup_fails) (Resolves Connection) sample_request
     \<lparr> db = fresh, users = [earlier_record] \<rparr>) =
     json_response [(''error'', lit ''Failed to register user'')] 400 \<and>
   fst (POST (User_of lookup_fails) (Resolves Connection) sample_request
     \<lparr> db = fresh, users = [earlier_record] \<rparr>) \<noteq>
     json_response [(''error'', lit ''User already registered'')] 400"
  by (simp add: POST_User_of [OF sample_request_def sample_request_members] connectDb_fresh
      lookup_fails_def json_response_def lit_def js_def)

text \<open>
  Claim C3, amended. For a body with a truthy email and password and no record of that
  email: when \<open>connectDb\<close>, the lookup and the insert do not throw, the route adds exactly
  one record carrying that email and password and answers 201; when one of them throws,
  it adds nothing and answers 400.
\<close>

theorem new_user_persisted:
  assumes "request_json = Inr parsed" "member parsed ''email'' = Inr e"
    "member parsed ''password'' = Inr pw" "truthy e" "truthy pw"
    and "\<forall>r \<in> set (users s). record_email r \<noteq> e"
  shows "if isl (fst (connectDb connecting (db s))) \<or> findOne_throws f \<noteq> None \<or>
            create_throws f \<noteq> None
         then fst (POST (User_of f) connecting request_json s) =
                json_response [(''error'', lit ''Failed to register user'')] 400 \<and>
              users (snd (POST (User_of f) connecting request_json s)) = users s
         else fst (POST (User_of f) connecting request_json s) =
                json_response [(''message'', lit ''User  registered successfully'')] 201 \<and>
              users (snd (POST (User_of f) connecting request_json s)) =
                users s @ [\<lparr> record_email = e, record_password = pw \<rparr>]"
  unfolding POST_User_of [OF assms(1-5)] using assms(6)
  by (cases "connectDb connecting (db s)"; cases "fst (connectDb connecting (db s))") auto

theorem new_user_persisted_witness:
  "fst (POST (User_of no_faults) (Resolves Connection) sample_request
     \<lparr> db = fresh, users = [] \<rparr>) =
     json_response [(''message'', lit ''User  registered successfully'')] 201 \<and>
   users (snd (POST (User_of no_faults) (Resolves Connection) sample_request
     \<lparr> db = fresh, users = [] \<rparr>)) = [sample_record]"
proof -
  have none: "\<forall>r \<in> set (users \<lparr> db = fresh, users = [] \<rparr>).
      record_email r \<noteq> Some (JStr (js ''a@b.co''))"
    by simp
  have ok: "\<not> (isl (fst (connectDb (Resolves Connection) (db \<lparr> db = fresh, users = [] \<rparr>)))
      \<or> findOne_throws no_faults \<noteq> None \<or> create_throws no_faults \<noteq> None)"
    by (simp add: connectDb_fresh no_faults_def)
  from new_user_persisted [OF sample_request_def sample_request_members none,
      of "Resolves Connection" no_faults] ok
  show ?thesis by (simp add: sample_record_def)
qed

text \<open>
  As stated the claim fails: no record of the email exists, the insert throws, and the
  route answers 400 with nothing persisted.
\<close>

theorem new_user_insert_throws:
  "status (fst (POST (User_of insert_fails) (Resolves Connection) sample_request
     \<lparr> db = fresh, users = [] \<rparr>)) = 400 \<and>
   users (snd (POST (User_of insert_fails) (Resolves Connection) sample_request
     \<lparr> db = fresh, users = [] \<rparr>)) = []"
  by (simp add: POST_User_of [OF sample_request_def sample_request_members] connectDb_fresh
      insert_fails_def json_response_def)

subsection \<open>The upload-auth route\<close>


text \<open>
  The response depends on the private key only through what \<open>getUploadAuthParams\<close>
  returns.
\<close>

lemma GET_depends_on_result:
  "returned (g k (NEXT_PUBLIC_PUBLIC_KEY e)) =
     returned (g (IMAGEKIT_PRIVATE_KEY e) (NEXT_PUBLIC_PUBLIC_KEY e)) \<Longrightarrow>
   GET g (e \<lparr> IMAGEKIT_PRIVATE_KEY := k \<rparr>) = GET g e"
  by (auto simp: GET_def returned_def split: sum.splits)





subsection \<open>Submitting the login form\<close>

lemma validateForm_login_ok:
  "snd (validateForm_login formData) \<longleftrightarrow>
     validateField_login LoginEmail (login_email formData) = None \<and>
     validateField_login LoginPassword (login_password formData) = None"
  by (auto simp: validateForm_login_def Let_def split: option.splits if_splits)

lemma sample_login_valid: "snd (validateForm_login sample_login)"
  by (simp add: validateForm_login_ok sample_login_def js_def trim_def is_space_def
      is_line_terminator_def test_anchored_def email_re_def Plus_def Chr_def not_space_at_def)

lemma sample_login_lowered: "ascii_toLowerCase (trim (js ''A@B.CO'')) = js ''a@b.co''"
  by (simp add: ascii_toLowerCase_def js_def trim_def is_space_def is_line_terminator_def
      is_upper_def)

text \<open>
  Claim C7, amended. On the login page of src/app/login/page.tsx a form that passes
  validation leads to one call of the credentials sign-in, with the entered email trimmed
  and lowercased and the entered password as the pair to be checked, and to a push of "/"
  exactly when sign-in returns a result that is ok and has no error; a form that does not
  pass leads to no call and no push. The plain login page (src/unnamed/part_000) has no
  field validation: every form leads to one call of the credentials sign-in, with the
  email and the password as entered, and "/" is pushed whenever sign-in returns without
  an error, also when the result is undefined or not ok.
\<close>

theorem login_submit:
  "(snd (validateForm_login formData) \<longrightarrow>
      signedIn (handleSubmit_login toLowerCase signIn_result formData) =
        [credentials_call (toLowerCase (trim (login_email formData))) (login_password formData)] \<and>
      pushed (handleSubmit_login toLowerCase signIn_result formData) =
        (if \<exists>r. signIn_result = SignInReturns (Some r) \<and> signIn_ok r \<and> \<not> has_error (Some r)
         then [''/''] else [])) \<and>
   (\<not> snd (validateForm_login formData) \<longrightarrow>
      signedIn (handleSubmit_login toLowerCase signIn_result formData) = [] \<and>
      pushed (handleSubmit_login toLowerCase signIn_result formData) = []) \<and>
   signedIn (handleSubmit_login_plain signIn_result formData) =
     [credentials_call (login_email formData) (login_password formData)] \<and>
   pushed (handleSubmit_login_plain signIn_result formData) =
     (if \<exists>r. signIn_result = SignInReturns r \<and> \<not> has_error r then [''/''] else [])"
proof -
  obtain errs v where v: "validateForm_login formData = (errs, v)"
    by (cases "validateForm_login formData")
  have plain: "signedIn (handleSubmit_login_plain signIn_result formData) =
      [credentials_call (login_email formData) (login_password formData)] \<and>
    pushed (handleSubmit_login_plain signIn_result formData) =
      (if \<exists>r. signIn_result = SignInReturns r \<and> \<not> has_error r then [''/''] else [])"
    by (cases signIn_result)
       (auto simp: handleSubmit_login_plain_def no_effects_def Let_def)
  have page: "signedIn (handleSubmit_login toLowerCase signIn_result formData) =
      (if v then [credentials_call (toLowerCase (trim (login_email formData)))
                    (login_password formData)] else []) \<and>
    pushed (handleSubmit_login toLowerCase signIn_result formData) =
      (if v \<and> (\<exists>r. signIn_result = SignInReturns (Some r) \<and> signIn_ok r \<and>
                  \<not> has_error (Some r))
       then [''/''] else [])"
    by (cases signIn_result; cases v)
       (auto simp: handleSubmit_login_def v no_effects_def Let_def is_ok_def has_error_def
          split: option.splits)
  show ?thesis using plain page v by simp
qed

lemma invalid_login_invalid: "\<not> snd (validateForm_login invalid_login)"
  by (simp add: validateForm_login_ok invalid_login_def js_def)

theorem login_submit_witness:
  "snd (validateForm_login sample_login) \<and>
   signedIn (handleSubmit_login ascii_toLowerCase (SignInReturns (Some signed_in)) sample_login) =
     [credentials_call (js ''a@b.co'') (js ''secret1'')] \<and>
   pushed (handleSubmit_login ascii_toLowerCase (SignInReturns (Some signed_in)) sample_login) =
     [''/''] \<and>
   pushed (handleSubmit_login ascii_toLowerCase (SignInReturns (Some not_ok_no_error))
     sample_login) = [] \<and>
   \<not> snd (validateForm_login invalid_login) \<and>
   signedIn (handleSubmit_login ascii_toLowerCase (SignInReturns (Some signed_in)) invalid_login) =
     [] \<and>
   signedIn (handleSubmit_login_plain (SignInReturns (Some signed_in)) invalid_login) =
     [credentials_call (js ''nobody'') []] \<and>
   pushed (handleSubmit_login_plain (SignInReturns (Some signed_in)) invalid_login) = [''/'']"
proof -
  have a: "\<exists>r. SignInReturns (Some signed_in) = SignInReturns (Some r) \<and> signIn_ok r \<and>
      \<not> has_error (Some r)"
    by (simp add: signed_in_def has_error_def)
  have b: "\<not> (\<exists>r. SignInReturns (Some not_ok_no_error) = SignInReturns (Some r) \<and> signIn_ok r \<and>
      \<not> has_error (Some r))"
    by (simp add: not_ok_no_error_def)
  have c: "\<exists>r. SignInReturns (Some signed_in) = SignInReturns r \<and> \<not> has_error r"
    by (simp add: signed_in_def has_error_def)
  from login_submit [of sample_login ascii_toLowerCase "SignInReturns (Some signed_in)"]
    sample_login_valid a
  have 1: "signedIn (handleSubmit_login ascii_toLowerCase (SignInReturns (Some signed_in))
      sample_login) = [credentials_call (js ''a@b.co'') (js ''secret1'')]"
    and 2: "pushed (handleSubmit_login ascii_toLowerCase (SignInReturns (Some signed_in))
      sample_login) = [''/'']"
    by (simp_all add: sample_login_def sample_login_lowered)
  from login_submit [of sample_login ascii_toLowerCase "SignInReturns (Some not_ok_no_error)"]
    sample_login_valid b
  have 3: "pushed (handleSubmit_login ascii_toLowerCase (SignInReturns (Some not_ok_no_error))
      sample_login) = []"
    by simp
  from login_submit [of invalid_login ascii_toLowerCase "SignInReturns (Some signed_in)"]
    invalid_login_invalid c
  have 4: "signedIn (handleSubmit_login ascii_toLowerCase (SignInReturns (Some signed_in))
      invalid_login) = []"
    and 5: "signedIn (handleSubmit_login_plain (SignInReturns (Some signed_in)) invalid_login) =
      [credentials_call (js ''nobody'') []]"
    and 6: "pushed (handleSubmit_login_plain (SignInReturns (Some signed_in)) invalid_login) =
      [''/'']"
    by (simp_all add: invalid_login_def)
  show ?thesis using sample_login_valid invalid_login_invalid 1 2 3 4 5 6 by simp
qed

text \<open>
  As stated the claim fails on the plain login page: the form passes the validation of
  the login page, the email goes to sign-in in upper case, and "/" is pushed although the
  result is not ok.
\<close>

theorem plain_login_differs:
  "snd (validateForm_login sample_login) \<and>
   map credentials_email
     (signedIn (handleSubmit_login_plain (SignInReturns (Some not_ok_no_error)) sample_login)) =
     [js ''A@B.CO''] \<and>
   pushed (handleSubmit_login_plain (SignInReturns (Some not_ok_no_error)) sample_login) = [''/''] \<and>
   \<not> signIn_ok not_ok_no_error"
  using sample_login_valid
  by (simp add: handleSubmit_login_plain_def no_effects_def credentials_call_def has_error_def
      not_ok_no_error_def sample_login_def)

end
